theory Spec2Isabelle
  imports Main
begin

section \<open>Values shared with the collaborating packages\<close>

text \<open>
  The controller of \<^verbatim>\<open>pkg/kubelet/kubeletconfig/controller.go\<close> is modelled by explicit
  state passing. A Go \<^verbatim>\<open>error\<close> is a value carrying its text; a result
  \<^verbatim>\<open>(x, err)\<close> of which exactly one component is non-nil is a sum, \<open>Inl\<close> the error.
  Log output (\<^verbatim>\<open>utillog\<close>) changes no state and is left out.
\<close>

datatype error = Error (errText: string)

text \<open>
  \<^verbatim>\<open>fmt.Sprintf\<close> for the verbs the controller uses, \<^verbatim>\<open>%s\<close> and \<^verbatim>\<open>%v\<close>, on
  operands already rendered as text. A verb without an operand prints Go's
  \<^verbatim>\<open>%!v(MISSING)\<close>; every call below passes as many operands as its format has verbs.
\<close>

fun Sprintf :: "string \<Rightarrow> string list \<Rightarrow> string" where
  "Sprintf [] args = []"
| "Sprintf [c] args = [c]"
| "Sprintf (c # d # rest) args =
     (if c = CHR ''%'' \<and> (d = CHR ''s'' \<or> d = CHR ''v'') then
        (case args of
           [] \<Rightarrow> ''%!'' @ [d] @ ''(MISSING)'' @ Sprintf rest []
         | a # as \<Rightarrow> a @ Sprintf rest as)
      else c # Sprintf (d # rest) args)"

definition Errorf :: "string \<Rightarrow> string list \<Rightarrow> error" where
  "Errorf format args = Error (Sprintf format args)"

subsection \<open>Time\<close>

text \<open>
  An instant is a count of nanoseconds; a \<^verbatim>\<open>time.Duration\<close> is a 64-bit signed count of
  nanoseconds. \<^verbatim>\<open>Time.Sub\<close> saturates: a difference outside the range of a Duration
  is returned as the largest or the smallest Duration.
\<close>

type_synonym Time = int
type_synonym Duration = int

definition maxDuration :: Duration where
  "maxDuration = 2 ^ 63 - 1"

definition minDuration :: Duration where
  "minDuration = - (2 ^ 63)"

definition time_Sub :: "Time \<Rightarrow> Time \<Rightarrow> Duration" where
  "time_Sub t u =
     (let d = t - u in
      if maxDuration < d then maxDuration
      else if d < minDuration then minDuration
      else d)"

subsection \<open>Configurations, sources and checkpoints\<close>

text \<open>
  Of a \<^verbatim>\<open>KubeletConfiguration\<close> the controller reads only the trial duration; the other
  fields are kept as one opaque value. A \<^verbatim>\<open>checkpoint.RemoteConfigSource\<close> is known by
  its UID, and a nil source is \<open>None\<close>. A checkpoint and a file loader are known by what
  \<^verbatim>\<open>Parse()\<close> and \<^verbatim>\<open>Load()\<close> return.
\<close>

type_synonym UID = string

record KubeletConfiguration =
  ConfigTrialDuration :: Duration
  OtherFields :: string

datatype RemoteConfigSource = RemoteConfigSource (UID: UID)

datatype Checkpoint = Checkpoint (Parse: "error + KubeletConfiguration")

datatype Loader = Loader (Load: "error + KubeletConfiguration")

text \<open>
  \<^verbatim>\<open>validation.ValidateKubeletConfiguration\<close> belongs to another package; the
  controller's functions take it as the parameter \<open>V\<close>. \<open>None\<close> is a nil error.
\<close>

type_synonym Validator = "KubeletConfiguration \<Rightarrow> error option"

subsection \<open>The ConfigOK condition\<close>

datatype ConditionStatus = ConditionTrue | ConditionFalse | ConditionUnknown

record ConfigOKCondition =
  message :: string
  reason :: string
  status :: ConditionStatus

text \<open>
  Modelled from the spec: \<^verbatim>\<open>status.ConfigOKCondition.Set\<close> is not among the sources. The
  spec gives \<^verbatim>\<open>Set(message, reason, boolean-ok)\<close> as in-memory and immediate: the
  condition holds what was set last.
\<close>

definition ConfigOK_Set :: "string \<Rightarrow> string \<Rightarrow> ConditionStatus \<Rightarrow> ConfigOKCondition \<Rightarrow> ConfigOKCondition" where
  "ConfigOK_Set m r s c = \<lparr>message = m, reason = r, status = s\<rparr>"

text \<open>
  Modelled from the spec: the message and reason constants of package \<^verbatim>\<open>status\<close> are
  not among the sources. The reason codes are the ones the spec lists for the resolver
  (\<^verbatim>\<open>local-ok\<close>, \<^verbatim>\<open>load-failed:<uid>\<close>, \<^verbatim>\<open>parse-failed:<uid>\<close>,
  \<^verbatim>\<open>validate-failed:<uid>\<close>); the success reason of a remote source is a constant in
  the code, which formats no UID into it. For the messages and for the reason formats of
  the last-known-good stage the spec gives no text (a message names the source in use);
  the texts below stand for them, and no property proved here depends on them.
\<close>

definition NotDynamicLocalMessage :: string where
  "NotDynamicLocalMessage = ''using local''"

definition NotDynamicLocalReason :: string where
  "NotDynamicLocalReason = ''dynamic disabled''"

definition CurLocalMessage :: string where
  "CurLocalMessage = ''using current: local''"

definition LkgLocalMessage :: string where
  "LkgLocalMessage = ''using last-known-good: local''"

definition CurRemoteMessageFmt :: string where
  "CurRemoteMessageFmt = ''using current: %s''"

definition LkgRemoteMessageFmt :: string where
  "LkgRemoteMessageFmt = ''using last-known-good: %s''"

definition CurLocalOkayReason :: string where
  "CurLocalOkayReason = ''local-ok''"

definition CurRemoteOkayReason :: string where
  "CurRemoteOkayReason = ''remote-ok''"

definition CurFailLoadReasonFmt :: string where
  "CurFailLoadReasonFmt = ''load-failed:%s''"

definition CurFailParseReasonFmt :: string where
  "CurFailParseReasonFmt = ''parse-failed:%s''"

definition CurFailValidateReasonFmt :: string where
  "CurFailValidateReasonFmt = ''validate-failed:%s''"

definition LkgFailLoadReasonFmt :: string where
  "LkgFailLoadReasonFmt = ''lkg-load-failed:%s''"

definition LkgFailParseReasonFmt :: string where
  "LkgFailParseReasonFmt = ''lkg-parse-failed:%s''"

definition LkgFailValidateReasonFmt :: string where
  "LkgFailValidateReasonFmt = ''lkg-validate-failed:%s''"

subsection \<open>The checkpoint store\<close>

text \<open>
  Modelled from the spec: package \<^verbatim>\<open>checkpoint/store\<close> is not among the sources. The
  spec gives the store two pointers, \<open>current\<close> and \<open>last-known-good\<close>, each a source
  record or absent, the modification time of \<open>current\<close>, one checkpoint per UID, and the
  operations \<^verbatim>\<open>Initialize\<close>, \<^verbatim>\<open>Current\<close>, \<^verbatim>\<open>CurrentModified\<close>,
  \<^verbatim>\<open>LastKnownGood\<close>, \<^verbatim>\<open>SetLastKnownGood\<close> and \<^verbatim>\<open>Load\<close>, each of which may
  return an error. The fields ending in \<open>Err\<close> say which operations fail (an operation
  that fails does so each time it is called); \<open>checkpoints\<close> gives for each UID the
  stored checkpoint or the error of loading it. \<open>calls\<close> records every operation performed
  on the store, in order, so that a run that leaves the store alone can be told from one
  that reads it.
\<close>

datatype StoreCall =
    CallInitialize
  | CallCurrent
  | CallCurrentModified
  | CallLastKnownGood
  | CallSetLastKnownGood "RemoteConfigSource option"
  | CallLoad UID

record Store =
  initializeErr :: "error option"
  current :: "RemoteConfigSource option"
  currentErr :: "error option"
  currentModified :: Time
  currentModifiedErr :: "error option"
  lastKnownGood :: "RemoteConfigSource option"
  lastKnownGoodErr :: "error option"
  setLastKnownGoodErr :: "error option"
  checkpoints :: "UID \<Rightarrow> error + Checkpoint"
  calls :: "StoreCall list"

definition logCall :: "StoreCall \<Rightarrow> Store \<Rightarrow> Store" where
  "logCall c st = st\<lparr>calls := calls st @ [c]\<rparr>"

definition Initialize :: "Store \<Rightarrow> error option \<times> Store" where
  "Initialize st = (initializeErr st, logCall CallInitialize st)"

definition Current :: "Store \<Rightarrow> (error + RemoteConfigSource option) \<times> Store" where
  "Current st =
     ((case currentErr st of Some err \<Rightarrow> Inl err | None \<Rightarrow> Inr (current st)),
      logCall CallCurrent st)"

definition CurrentModified :: "Store \<Rightarrow> (error + Time) \<times> Store" where
  "CurrentModified st =
     ((case currentModifiedErr st of Some err \<Rightarrow> Inl err | None \<Rightarrow> Inr (currentModified st)),
      logCall CallCurrentModified st)"

definition LastKnownGood :: "Store \<Rightarrow> (error + RemoteConfigSource option) \<times> Store" where
  "LastKnownGood st =
     ((case lastKnownGoodErr st of Some err \<Rightarrow> Inl err | None \<Rightarrow> Inr (lastKnownGood st)),
      logCall CallLastKnownGood st)"

definition SetLastKnownGood :: "RemoteConfigSource option \<Rightarrow> Store \<Rightarrow> error option \<times> Store" where
  "SetLastKnownGood src st =
     (case setLastKnownGoodErr st of
        Some err \<Rightarrow> (Some err, logCall (CallSetLastKnownGood src) st)
      | None \<Rightarrow> (None, logCall (CallSetLastKnownGood src) (st\<lparr>lastKnownGood := src\<rparr>)))"

definition Load_checkpoint :: "UID \<Rightarrow> Store \<Rightarrow> (error + Checkpoint) \<times> Store" where
  "Load_checkpoint uid st = (checkpoints st uid, logCall (CallLoad uid) st)"

subsection \<open>The pending-change channel\<close>

text \<open>
  A buffered Go channel is its capacity and the values waiting in it, oldest first.
  \<^verbatim>\<open>make(chan bool, 1)\<close> is \<open>make_chan 1\<close>.
\<close>

record 'a chan =
  capacity :: nat
  buffer :: "'a list"

definition make_chan :: "nat \<Rightarrow> 'a chan" where
  "make_chan n = \<lparr>capacity = n, buffer = []\<rparr>"

text \<open>
  Modelled from the spec: the functions that raise and consume the pending-change signal
  are not among the sources. The spec gives the signal as a single-slot, non-blocking
  message slot: a send when the slot already holds a value is dropped silently, and a
  loop that finds the slot set consumes it before acting. \<open>raiseSignal\<close> is the
  non-blocking send of \<open>True\<close>, \<open>consumeSignal\<close> the non-blocking receive, which returns
  the value taken, or \<open>None\<close> when nothing is pending.
\<close>

definition raiseSignal :: "bool chan \<Rightarrow> bool chan" where
  "raiseSignal ch =
     (if length (buffer ch) < capacity ch then ch\<lparr>buffer := buffer ch @ [True]\<rparr> else ch)"

definition consumeSignal :: "bool chan \<Rightarrow> bool option \<times> bool chan" where
  "consumeSignal ch =
     (case buffer ch of
        [] \<Rightarrow> (None, ch)
      | v # vs \<Rightarrow> (Some v, ch\<lparr>buffer := vs\<rparr>))"

definition pending :: "bool chan \<Rightarrow> nat" where
  "pending ch = length (buffer ch)"

section \<open>The controller\<close>

definition checkpointsDir :: string where
  "checkpointsDir = ''checkpoints''"

text \<open>
  A nil \<^verbatim>\<open>fileLoader\<close> is \<open>None\<close>. The informer, set by \<^verbatim>\<open>StartSync\<close> only, is
  left out.
\<close>

record Controller =
  dynamicConfig :: bool
  defaultConfig :: KubeletConfiguration
  fileLoader :: "Loader option"
  pendingConfigSource :: "bool chan"
  configOK :: ConfigOKCondition
  checkpointStore :: Store

text \<open>
  \<^verbatim>\<open>NewController\<close>. The constructors of the collaborating packages are parameters:
  \<open>NewFsLoader\<close> for \<^verbatim>\<open>configfiles.NewFsLoader(fs, path)\<close>, \<open>NewFsStore\<close> for
  \<^verbatim>\<open>store.NewFsStore(fs, filepath.Join(dir, checkpointsDir))\<close>, given the two path
  elements, and \<open>NewConfigOKCondition\<close> for the fresh condition.
\<close>

definition NewController ::
  "(string \<Rightarrow> error + Loader) \<Rightarrow> (string \<Rightarrow> string \<Rightarrow> Store) \<Rightarrow> ConfigOKCondition \<Rightarrow>
   KubeletConfiguration \<Rightarrow> string \<Rightarrow> string \<Rightarrow> error + Controller" where
  "NewController NewFsLoader NewFsStore NewConfigOKCondition defaultCfg kubeletConfigFile dynamicConfigDir =
     (case (if 0 < length kubeletConfigFile
            then (case NewFsLoader kubeletConfigFile of
                    Inl err \<Rightarrow> Inl err
                  | Inr ld \<Rightarrow> Inr (Some ld))
            else Inr None) of
        Inl err \<Rightarrow> Inl err
      | Inr ld \<Rightarrow>
          Inr \<lparr>dynamicConfig = (0 < length dynamicConfigDir),
               defaultConfig = defaultCfg,
               fileLoader = ld,
               pendingConfigSource = make_chan 1,
               configOK = NewConfigOKCondition,
               checkpointStore = NewFsStore dynamicConfigDir checkpointsDir\<rparr>)"

text \<open>\<^verbatim>\<open>loadLocalConfig\<close>: the defaults are validated always, the file only when a loader is set.\<close>

definition loadLocalConfig :: "Validator \<Rightarrow> Controller \<Rightarrow> error + KubeletConfiguration" where
  "loadLocalConfig V cc =
     (case V (defaultConfig cc) of
        Some err \<Rightarrow>
          Inl (Errorf ''combination of defaults and flags failed validation, error: %v'' [errText err])
      | None \<Rightarrow>
          (case fileLoader cc of
             Some ld \<Rightarrow>
               (case Load ld of
                  Inl err \<Rightarrow> Inl err
                | Inr kc \<Rightarrow>
                    (case V kc of
                       Some err \<Rightarrow>
                         Inl (Errorf ''failed to validate the Kubelet config file, error: %v'' [errText err])
                     | None \<Rightarrow> Inr kc))
           | None \<Rightarrow> Inr (defaultConfig cc)))"

text \<open>
  \<^verbatim>\<open>loadAssignedConfig\<close> returns \<^verbatim>\<open>(config, source, reason, err)\<close>; the model pairs
  the configuration and the error as one sum and returns the controller, whose store has
  recorded the calls.
\<close>

definition loadAssignedConfig ::
  "Validator \<Rightarrow> KubeletConfiguration \<Rightarrow> Controller \<Rightarrow>
   ((error + KubeletConfiguration) \<times> RemoteConfigSource option \<times> string) \<times> Controller" where
  "loadAssignedConfig V local cc =
     (case Current (checkpointStore cc) of
        (Inl err, st1) \<Rightarrow>
          ((Inl err, None, Sprintf CurFailLoadReasonFmt [''unknown'']), cc\<lparr>checkpointStore := st1\<rparr>)
      | (Inr None, st1) \<Rightarrow>
          ((Inr local, None, CurLocalOkayReason), cc\<lparr>checkpointStore := st1\<rparr>)
      | (Inr (Some src), st1) \<Rightarrow>
          (let curUID = UID src in
           case Load_checkpoint curUID st1 of
             (Inl err, st2) \<Rightarrow>
               ((Inl err, Some src, Sprintf CurFailLoadReasonFmt [curUID]), cc\<lparr>checkpointStore := st2\<rparr>)
           | (Inr checkpoint, st2) \<Rightarrow>
               (case Parse checkpoint of
                  Inl err \<Rightarrow>
                    ((Inl err, Some src, Sprintf CurFailParseReasonFmt [curUID]), cc\<lparr>checkpointStore := st2\<rparr>)
                | Inr cur \<Rightarrow>
                    (case V cur of
                       Some err \<Rightarrow>
                         ((Inl err, Some src, Sprintf CurFailValidateReasonFmt [curUID]),
                          cc\<lparr>checkpointStore := st2\<rparr>)
                     | None \<Rightarrow>
                         ((Inr cur, Some src, CurRemoteOkayReason), cc\<lparr>checkpointStore := st2\<rparr>)))))"

text \<open>\<^verbatim>\<open>loadLastKnownGoodConfig\<close> returns \<^verbatim>\<open>(config, source, err)\<close>.\<close>

definition loadLastKnownGoodConfig ::
  "Validator \<Rightarrow> KubeletConfiguration \<Rightarrow> Controller \<Rightarrow>
   ((error + KubeletConfiguration) \<times> RemoteConfigSource option) \<times> Controller" where
  "loadLastKnownGoodConfig V local cc =
     (case LastKnownGood (checkpointStore cc) of
        (Inl err, st1) \<Rightarrow>
          ((Inl (Errorf ''unable to determine last-known-good config, error: %v'' [errText err]), None),
           cc\<lparr>checkpointStore := st1\<rparr>)
      | (Inr None, st1) \<Rightarrow>
          ((Inr local, None), cc\<lparr>checkpointStore := st1\<rparr>)
      | (Inr (Some src), st1) \<Rightarrow>
          (let lkgUID = UID src in
           case Load_checkpoint lkgUID st1 of
             (Inl err, st2) \<Rightarrow>
               ((Inl (Errorf ''%s, error: %v'' [Sprintf LkgFailLoadReasonFmt [lkgUID], errText err]), Some src),
                cc\<lparr>checkpointStore := st2\<rparr>)
           | (Inr checkpoint, st2) \<Rightarrow>
               (case Parse checkpoint of
                  Inl err \<Rightarrow>
                    ((Inl (Errorf ''%s, error: %v'' [Sprintf LkgFailParseReasonFmt [lkgUID], errText err]),
                      Some src),
                     cc\<lparr>checkpointStore := st2\<rparr>)
                | Inr lkg \<Rightarrow>
                    (case V lkg of
                       Some err \<Rightarrow>
                         ((Inl (Errorf ''%s, error: %v''
                                  [Sprintf LkgFailValidateReasonFmt [lkgUID], errText err]),
                           Some src),
                          cc\<lparr>checkpointStore := st2\<rparr>)
                     | None \<Rightarrow>
                         ((Inr lkg, Some src), cc\<lparr>checkpointStore := st2\<rparr>)))))"

definition initializeDynamicConfigDir :: "Controller \<Rightarrow> error option \<times> Controller" where
  "initializeDynamicConfigDir cc =
     (case Initialize (checkpointStore cc) of
        (r, st1) \<Rightarrow> (r, cc\<lparr>checkpointStore := st1\<rparr>))"

text \<open>\<^verbatim>\<open>inTrial\<close>; \<open>now\<close> is what \<^verbatim>\<open>time.Now()\<close> returns.\<close>

definition inTrial :: "Time \<Rightarrow> Duration \<Rightarrow> Controller \<Rightarrow> (error + bool) \<times> Controller" where
  "inTrial now trialDur cc =
     (case CurrentModified (checkpointStore cc) of
        (Inl err, st1) \<Rightarrow> (Inl err, cc\<lparr>checkpointStore := st1\<rparr>)
      | (Inr t, st1) \<Rightarrow>
          (if time_Sub now t \<le> trialDur then (Inr True, cc\<lparr>checkpointStore := st1\<rparr>)
           else (Inr False, cc\<lparr>checkpointStore := st1\<rparr>)))"

definition graduateAssignedToLastKnownGood :: "Controller \<Rightarrow> error option \<times> Controller" where
  "graduateAssignedToLastKnownGood cc =
     (case Current (checkpointStore cc) of
        (Inl err, st1) \<Rightarrow> (Some err, cc\<lparr>checkpointStore := st1\<rparr>)
      | (Inr curUID, st1) \<Rightarrow>
          (case SetLastKnownGood curUID st1 of
             (Some err, st2) \<Rightarrow> (Some err, cc\<lparr>checkpointStore := st2\<rparr>)
           | (None, st2) \<Rightarrow> (None, cc\<lparr>checkpointStore := st2\<rparr>)))"

text \<open>
  \<^verbatim>\<open>Bootstrap\<close> returns the configuration or the error, and the controller as the call
  leaves it: its condition and its store.
\<close>

definition Bootstrap ::
  "Validator \<Rightarrow> Time \<Rightarrow> Controller \<Rightarrow> (error + KubeletConfiguration) \<times> Controller" where
  "Bootstrap V now cc =
     (case loadLocalConfig V cc of
        Inl err \<Rightarrow> (Inl err, cc)
      | Inr local \<Rightarrow>
          if \<not> dynamicConfig cc then
            (Inr local,
             cc\<lparr>configOK := ConfigOK_Set NotDynamicLocalMessage NotDynamicLocalReason ConditionTrue (configOK cc)\<rparr>)
          else
            (case initializeDynamicConfigDir cc of
               (Some err, cc1) \<Rightarrow> (Inl err, cc1)
             | (None, cc1) \<Rightarrow>
                 (case loadAssignedConfig V local cc1 of
                    ((Inr assigned, curSource, rsn), cc2) \<Rightarrow>
                      (let cc3 =
                             (case curSource of
                                Some src \<Rightarrow>
                                  cc2\<lparr>configOK :=
                                        ConfigOK_Set (Sprintf CurRemoteMessageFmt [UID src]) rsn ConditionTrue
                                          (configOK cc2)\<rparr>
                              | None \<Rightarrow>
                                  cc2\<lparr>configOK := ConfigOK_Set CurLocalMessage rsn ConditionTrue (configOK cc2)\<rparr>);
                           cc5 =
                             (case inTrial now (ConfigTrialDuration assigned) cc3 of
                                (Inl err, cc4) \<Rightarrow> cc4
                              | (Inr trial, cc4) \<Rightarrow>
                                  (if \<not> trial then snd (graduateAssignedToLastKnownGood cc4) else cc4))
                       in (Inr assigned, cc5))
                  | ((Inl err, curSource, rsn), cc2) \<Rightarrow>
                      (case loadLastKnownGoodConfig V local cc2 of
                         ((Inl err, lkgSource), cc3) \<Rightarrow> (Inl err, cc3)
                       | ((Inr lkg, lkgSource), cc3) \<Rightarrow>
                           (case lkgSource of
                              Some src \<Rightarrow>
                                (Inr lkg,
                                 cc3\<lparr>configOK :=
                                       ConfigOK_Set (Sprintf LkgRemoteMessageFmt [UID src]) rsn ConditionFalse
                                         (configOK cc3)\<rparr>)
                            | None \<Rightarrow>
                                (Inr lkg,
                                 cc3\<lparr>configOK :=
                                       ConfigOK_Set LkgLocalMessage rsn ConditionFalse (configOK cc3)\<rparr>))))))"


section \<open>Vocabulary of the properties\<close>

text \<open>
  What the store holds under a UID, as the two resolvers meet it: a checkpoint that cannot
  be loaded, one that does not parse, one whose configuration \<open>V\<close> rejects, or a
  configuration that passes. The stage is the first step that fails.
\<close>

datatype Stage = LoadStage | ParseStage | ValidateStage

definition checkpointOutcome :: "Validator \<Rightarrow> Store \<Rightarrow> UID \<Rightarrow> (Stage \<times> error) + KubeletConfiguration" where
  "checkpointOutcome V st uid =
     (case checkpoints st uid of
        Inl err \<Rightarrow> Inl (LoadStage, err)
      | Inr checkpoint \<Rightarrow>
          (case Parse checkpoint of
             Inl err \<Rightarrow> Inl (ParseStage, err)
           | Inr kc \<Rightarrow>
               (case V kc of
                  Some err \<Rightarrow> Inl (ValidateStage, err)
                | None \<Rightarrow> Inr kc)))"

text \<open>The reason of a failure of the assigned configuration at a stage, against a UID.\<close>

fun curFailReason :: "Stage \<Rightarrow> UID \<Rightarrow> string" where
  "curFailReason LoadStage uid = ''load-failed:'' @ uid"
| "curFailReason ParseStage uid = ''parse-failed:'' @ uid"
| "curFailReason ValidateStage uid = ''validate-failed:'' @ uid"

fun lkgFailReason :: "Stage \<Rightarrow> UID \<Rightarrow> string" where
  "lkgFailReason LoadStage uid = Sprintf LkgFailLoadReasonFmt [uid]"
| "lkgFailReason ParseStage uid = Sprintf LkgFailParseReasonFmt [uid]"
| "lkgFailReason ValidateStage uid = Sprintf LkgFailValidateReasonFmt [uid]"

text \<open>
  \<open>addCalls cs cc\<close> is \<open>cc\<close> after the store has recorded the calls \<open>cs\<close> and nothing
  else has changed; \<open>setLkg src cc\<close> is \<open>cc\<close> with the last-known-good pointer set.
\<close>

definition addCalls :: "StoreCall list \<Rightarrow> Controller \<Rightarrow> Controller" where
  "addCalls cs cc = cc\<lparr>checkpointStore := (checkpointStore cc)\<lparr>calls := calls (checkpointStore cc) @ cs\<rparr>\<rparr>"

definition setLkg :: "RemoteConfigSource option \<Rightarrow> Controller \<Rightarrow> Controller" where
  "setLkg src cc = cc\<lparr>checkpointStore := (checkpointStore cc)\<lparr>lastKnownGood := src\<rparr>\<rparr>"

section \<open>A node used in the examples\<close>

text \<open>
  A validator that rejects a negative trial duration; a local configuration and two remote
  ones with a trial of ten minutes; a store holding checkpoints \<open>v1\<close> and \<open>v2\<close>, a
  checkpoint \<open>bad\<close> that fails validation and a checkpoint \<open>garbled\<close> that does not
  parse, with \<open>current\<close> at \<open>v2\<close>, set at time 0, and \<open>last-known-good\<close> at \<open>v1\<close>.
\<close>

definition exampleValidator :: Validator where
  "exampleValidator kc =
     (if ConfigTrialDuration kc < 0 then Some (Error ''ConfigTrialDuration must not be negative'') else None)"

definition tenMinutes :: Duration where
  "tenMinutes = 600000000000"

definition oneHour :: Duration where
  "oneHour = 3600000000000"

definition localConfig :: KubeletConfiguration where
  "localConfig = \<lparr>ConfigTrialDuration = tenMinutes, OtherFields = ''local''\<rparr>"

definition configV1 :: KubeletConfiguration where
  "configV1 = \<lparr>ConfigTrialDuration = tenMinutes, OtherFields = ''v1''\<rparr>"

definition configV2 :: KubeletConfiguration where
  "configV2 = \<lparr>ConfigTrialDuration = tenMinutes, OtherFields = ''v2''\<rparr>"

definition invalidConfig :: KubeletConfiguration where
  "invalidConfig = \<lparr>ConfigTrialDuration = - 1, OtherFields = ''bad''\<rparr>"

definition exampleCheckpoints :: "UID \<Rightarrow> error + Checkpoint" where
  "exampleCheckpoints uid =
     (if uid = ''v1'' then Inr (Checkpoint (Inr configV1))
      else if uid = ''v2'' then Inr (Checkpoint (Inr configV2))
      else if uid = ''bad'' then Inr (Checkpoint (Inr invalidConfig))
      else if uid = ''garbled'' then Inr (Checkpoint (Inl (Error ''unexpected end of input'')))
      else Inl (Error ''no such checkpoint''))"

definition exampleStore :: Store where
  "exampleStore =
     \<lparr>initializeErr = None,
      current = Some (RemoteConfigSource ''v2''),
      currentErr = None,
      currentModified = 0,
      currentModifiedErr = None,
      lastKnownGood = Some (RemoteConfigSource ''v1''),
      lastKnownGoodErr = None,
      setLastKnownGoodErr = None,
      checkpoints = exampleCheckpoints,
      calls = []\<rparr>"

definition freshCondition :: ConfigOKCondition where
  "freshCondition = \<lparr>message = [], reason = [], status = ConditionUnknown\<rparr>"

definition exampleController :: Controller where
  "exampleController =
     \<lparr>dynamicConfig = True,
      defaultConfig = localConfig,
      fileLoader = None,
      pendingConfigSource = make_chan 1,
      configOK = freshCondition,
      checkpointStore = exampleStore\<rparr>"

definition withStore :: "Store \<Rightarrow> Controller" where
  "withStore st = exampleController\<lparr>checkpointStore := st\<rparr>"

section \<open>Each function by its result and its effect\<close>

lemma Sprintf_cur_reasons:
  "Sprintf CurFailLoadReasonFmt [u] = ''load-failed:'' @ u"
  "Sprintf CurFailParseReasonFmt [u] = ''parse-failed:'' @ u"
  "Sprintf CurFailValidateReasonFmt [u] = ''validate-failed:'' @ u"
  by (simp_all add: CurFailLoadReasonFmt_def CurFailParseReasonFmt_def CurFailValidateReasonFmt_def)

lemma curFailReason_inj:
  "curFailReason stage uid = curFailReason stage' uid' \<longleftrightarrow> stage = stage' \<and> uid = uid'"
  by (cases stage; cases stage'; simp)

lemma time_Sub_exact:
  "minDuration \<le> t - u \<Longrightarrow> t - u \<le> maxDuration \<Longrightarrow> time_Sub t u = t - u"
  by (simp add: time_Sub_def)

lemma time_Sub_le_iff:
  "minDuration \<le> d \<Longrightarrow> d < maxDuration \<Longrightarrow> time_Sub t u \<le> d \<longleftrightarrow> t - u \<le> d"
  by (auto simp add: time_Sub_def Let_def)

lemma logCall_fields [simp]:
  "initializeErr (logCall c st) = initializeErr st"
  "current (logCall c st) = current st"
  "currentErr (logCall c st) = currentErr st"
  "currentModified (logCall c st) = currentModified st"
  "currentModifiedErr (logCall c st) = currentModifiedErr st"
  "lastKnownGood (logCall c st) = lastKnownGood st"
  "lastKnownGoodErr (logCall c st) = lastKnownGoodErr st"
  "setLastKnownGoodErr (logCall c st) = setLastKnownGoodErr st"
  "checkpoints (logCall c st) = checkpoints st"
  "calls (logCall c st) = calls st @ [c]"
  by (simp_all add: logCall_def)

lemma addCalls_fields [simp]:
  "dynamicConfig (addCalls cs cc) = dynamicConfig cc"
  "defaultConfig (addCalls cs cc) = defaultConfig cc"
  "fileLoader (addCalls cs cc) = fileLoader cc"
  "pendingConfigSource (addCalls cs cc) = pendingConfigSource cc"
  "configOK (addCalls cs cc) = configOK cc"
  "initializeErr (checkpointStore (addCalls cs cc)) = initializeErr (checkpointStore cc)"
  "current (checkpointStore (addCalls cs cc)) = current (checkpointStore cc)"
  "currentErr (checkpointStore (addCalls cs cc)) = currentErr (checkpointStore cc)"
  "currentModified (checkpointStore (addCalls cs cc)) = currentModified (checkpointStore cc)"
  "currentModifiedErr (checkpointStore (addCalls cs cc)) = currentModifiedErr (checkpointStore cc)"
  "lastKnownGood (checkpointStore (addCalls cs cc)) = lastKnownGood (checkpointStore cc)"
  "lastKnownGoodErr (checkpointStore (addCalls cs cc)) = lastKnownGoodErr (checkpointStore cc)"
  "setLastKnownGoodErr (checkpointStore (addCalls cs cc)) = setLastKnownGoodErr (checkpointStore cc)"
  "checkpoints (checkpointStore (addCalls cs cc)) = checkpoints (checkpointStore cc)"
  "calls (checkpointStore (addCalls cs cc)) = calls (checkpointStore cc) @ cs"
  by (simp_all add: addCalls_def)

lemma checkpointOutcome_addCalls [simp]:
  "checkpointOutcome V (checkpointStore (addCalls cs cc)) = checkpointOutcome V (checkpointStore cc)"
  by (rule ext) (simp add: checkpointOutcome_def)

lemma addCalls_addCalls [simp]: "addCalls cs (addCalls ds cc) = addCalls (ds @ cs) cc"
  by (simp add: addCalls_def)

lemma addCalls_configOK_update [simp]:
  "addCalls cs (cc\<lparr>configOK := c\<rparr>) = (addCalls cs cc)\<lparr>configOK := c\<rparr>"
  by (simp add: addCalls_def)

lemma addCalls_restore:
  "(addCalls cs cc)\<lparr>checkpointStore :=
      (checkpointStore (addCalls cs cc))\<lparr>calls := calls (checkpointStore cc)\<rparr>\<rparr> = cc"
  by (simp add: addCalls_def)

lemma setLkg_fields [simp]:
  "configOK (setLkg s cc) = configOK cc"
  "lastKnownGood (checkpointStore (setLkg s cc)) = s"
  "calls (checkpointStore (setLkg s cc)) = calls (checkpointStore cc)"
  by (simp_all add: setLkg_def)

lemma loadLocalConfig_addCalls [simp]:
  "loadLocalConfig V (addCalls cs cc) = loadLocalConfig V cc"
  by (simp add: loadLocalConfig_def split: option.splits)

lemma loadLocalConfig_Inr_iff:
  "loadLocalConfig V cc = Inr local \<longleftrightarrow>
     V (defaultConfig cc) = None \<and>
     (case fileLoader cc of
        None \<Rightarrow> local = defaultConfig cc
      | Some ld \<Rightarrow> Load ld = Inr local \<and> V local = None)"
  by (auto simp add: loadLocalConfig_def split: option.splits sum.splits)

lemma loadAssignedConfig_fst:
  "fst (loadAssignedConfig V local cc) =
     (case currentErr (checkpointStore cc) of
        Some err \<Rightarrow> (Inl err, None, ''load-failed:unknown'')
      | None \<Rightarrow>
          (case current (checkpointStore cc) of
             None \<Rightarrow> (Inr local, None, CurLocalOkayReason)
           | Some src \<Rightarrow>
               (case checkpointOutcome V (checkpointStore cc) (UID src) of
                  Inl (stage, err) \<Rightarrow> (Inl err, Some src, curFailReason stage (UID src))
                | Inr kc \<Rightarrow> (Inr kc, Some src, CurRemoteOkayReason))))"
  by (simp add: loadAssignedConfig_def Current_def Load_checkpoint_def checkpointOutcome_def
      Sprintf_cur_reasons Let_def split: option.splits sum.splits)

lemma loadAssignedConfig_snd:
  "snd (loadAssignedConfig V local cc) =
     addCalls (case currentErr (checkpointStore cc) of
        Some err \<Rightarrow> [CallCurrent]
      | None \<Rightarrow>
          (case current (checkpointStore cc) of
             None \<Rightarrow> [CallCurrent]
           | Some src \<Rightarrow> [CallCurrent, CallLoad (UID src)])) cc"
  by (simp add: loadAssignedConfig_def Current_def Load_checkpoint_def addCalls_def logCall_def
      Let_def split: option.splits sum.splits)

lemma loadLastKnownGoodConfig_fst:
  "fst (loadLastKnownGoodConfig V local cc) =
     (case lastKnownGoodErr (checkpointStore cc) of
        Some err \<Rightarrow>
          (Inl (Errorf ''unable to determine last-known-good config, error: %v'' [errText err]), None)
      | None \<Rightarrow>
          (case lastKnownGood (checkpointStore cc) of
             None \<Rightarrow> (Inr local, None)
           | Some src \<Rightarrow>
               (case checkpointOutcome V (checkpointStore cc) (UID src) of
                  Inl (stage, err) \<Rightarrow>
                    (Inl (Errorf ''%s, error: %v'' [lkgFailReason stage (UID src), errText err]), Some src)
                | Inr kc \<Rightarrow> (Inr kc, Some src))))"
  by (simp add: loadLastKnownGoodConfig_def LastKnownGood_def Load_checkpoint_def checkpointOutcome_def
      Let_def split: option.splits sum.splits)

lemma loadLastKnownGoodConfig_snd:
  "snd (loadLastKnownGoodConfig V local cc) =
     addCalls (case lastKnownGoodErr (checkpointStore cc) of
        Some err \<Rightarrow> [CallLastKnownGood]
      | None \<Rightarrow>
          (case lastKnownGood (checkpointStore cc) of
             None \<Rightarrow> [CallLastKnownGood]
           | Some src \<Rightarrow> [CallLastKnownGood, CallLoad (UID src)])) cc"
  by (simp add: loadLastKnownGoodConfig_def LastKnownGood_def Load_checkpoint_def addCalls_def logCall_def
      Let_def split: option.splits sum.splits)

lemma initializeDynamicConfigDir_eq:
  "initializeDynamicConfigDir cc = (initializeErr (checkpointStore cc), addCalls [CallInitialize] cc)"
  by (simp add: initializeDynamicConfigDir_def Initialize_def addCalls_def logCall_def)

lemma inTrial_eq:
  "inTrial now trialDur cc =
     ((case currentModifiedErr (checkpointStore cc) of
         Some err \<Rightarrow> Inl err
       | None \<Rightarrow> Inr (time_Sub now (currentModified (checkpointStore cc)) \<le> trialDur)),
      addCalls [CallCurrentModified] cc)"
  by (simp add: inTrial_def CurrentModified_def addCalls_def logCall_def split: option.splits)

lemma graduateAssignedToLastKnownGood_eq:
  "graduateAssignedToLastKnownGood cc =
     (case currentErr (checkpointStore cc) of
        Some err \<Rightarrow> (Some err, addCalls [CallCurrent] cc)
      | None \<Rightarrow>
          (case setLastKnownGoodErr (checkpointStore cc) of
             Some err \<Rightarrow>
               (Some err, addCalls [CallCurrent, CallSetLastKnownGood (current (checkpointStore cc))] cc)
           | None \<Rightarrow>
               (None, addCalls [CallCurrent, CallSetLastKnownGood (current (checkpointStore cc))]
                        (setLkg (current (checkpointStore cc)) cc))))"
  by (simp add: graduateAssignedToLastKnownGood_def Current_def SetLastKnownGood_def addCalls_def
      logCall_def setLkg_def split: option.splits)

lemmas bootstrap_simps = Bootstrap_def initializeDynamicConfigDir_eq split_beta
  loadAssignedConfig_fst loadAssignedConfig_snd loadLastKnownGoodConfig_fst loadLastKnownGoodConfig_snd
  inTrial_eq graduateAssignedToLastKnownGood_eq ConfigOK_Set_def Let_def

lemma assigned_fails:
  assumes "currentErr (checkpointStore cc) = Some err1 \<or>
         (\<exists>src stage. currentErr (checkpointStore cc) = None \<and> current (checkpointStore cc) = Some src \<and>
            checkpointOutcome V (checkpointStore cc) (UID src) = Inl (stage, err1))"
  shows "\<exists>source rsn. fst (loadAssignedConfig V local cc) = (Inl err1, source, rsn)"
  using assms by (auto simp add: loadAssignedConfig_fst)

lemma lastKnownGood_fails:
  assumes "lastKnownGoodErr (checkpointStore cc) = Some err2 \<or>
         (\<exists>src stage. lastKnownGoodErr (checkpointStore cc) = None \<and>
            lastKnownGood (checkpointStore cc) = Some src \<and>
            checkpointOutcome V (checkpointStore cc) (UID src) = Inl (stage, err2))"
  shows "\<exists>err source. fst (loadLastKnownGoodConfig V local cc) = (Inl err, source)"
  using assms by (auto simp add: loadLastKnownGoodConfig_fst)

lemma Bootstrap_both_fail:
  assumes "dynamicConfig cc"
    and "fst (loadAssignedConfig V local (addCalls [CallInitialize] cc)) = (Inl err1, source, rsn)"
    and "fst (loadLastKnownGoodConfig V local
            (snd (loadAssignedConfig V local (addCalls [CallInitialize] cc)))) = (Inl err, lkgSource)"
    and "loadLocalConfig V cc = Inr local"
    and "initializeErr (checkpointStore cc) = None"
  shows "fst (Bootstrap V now cc) = Inl err \<and> configOK (snd (Bootstrap V now cc)) = configOK cc"
  using assms
  by (simp add: Bootstrap_def initializeDynamicConfigDir_eq split_beta loadAssignedConfig_snd
      loadLastKnownGoodConfig_snd)

lemma raiseSignal_full: "length (buffer ch) = capacity ch \<Longrightarrow> raiseSignal ch = ch"
  by (simp add: raiseSignal_def)

lemma raiseSignal_pow:
  "(raiseSignal ^^ Suc n) (make_chan 1) = \<lparr>capacity = 1, buffer = [True]\<rparr>"
  by (induction n) (simp_all add: raiseSignal_def make_chan_def)

subsection \<open>The example node\<close>

lemmas example_defs = withStore_def exampleController_def exampleStore_def exampleCheckpoints_def
  exampleValidator_def localConfig_def configV1_def configV2_def invalidConfig_def tenMinutes_def
  oneHour_def freshCondition_def

lemma example_local [simp]: "loadLocalConfig exampleValidator (withStore st) = Inr localConfig"
  by (simp add: loadLocalConfig_def example_defs)

lemma example_dynamic [simp]: "dynamicConfig (withStore st)"
  by (simp add: example_defs)

lemma example_store [simp]: "checkpointStore (withStore st) = st"
  by (simp add: example_defs)

lemma example_condition [simp]: "configOK (withStore st) = freshCondition"
  by (simp add: withStore_def exampleController_def)

lemma example_outcomes [simp]:
  "checkpoints st = exampleCheckpoints \<Longrightarrow> checkpointOutcome exampleValidator st ''v1'' = Inr configV1"
  "checkpoints st = exampleCheckpoints \<Longrightarrow> checkpointOutcome exampleValidator st ''v2'' = Inr configV2"
  "checkpoints st = exampleCheckpoints \<Longrightarrow>
     checkpointOutcome exampleValidator st ''bad'' =
       Inl (ValidateStage, Error ''ConfigTrialDuration must not be negative'')"
  "checkpoints st = exampleCheckpoints \<Longrightarrow>
     checkpointOutcome exampleValidator st ''garbled'' = Inl (ParseStage, Error ''unexpected end of input'')"
  "checkpoints st = exampleCheckpoints \<Longrightarrow>
     checkpointOutcome exampleValidator st ''gone'' = Inl (LoadStage, Error ''no such checkpoint'')"
  by (simp_all add: checkpointOutcome_def exampleCheckpoints_def exampleValidator_def configV1_def
      configV2_def invalidConfig_def tenMinutes_def)

section \<open>Local configuration and the short-circuit\<close>

text \<open>
  Claim C3. When the local configuration fails validation (the defaults, or the
  configuration loaded from the file when a loader is set), \<open>Bootstrap\<close> returns an error
  and no configuration, and the controller is as it was: no operation has been performed
  on the store, so neither the assigned nor the last-known-good configuration has been
  resolved, and the condition has not been set.
\<close>

theorem Bootstrap_invalid_local:
  assumes "V (defaultConfig cc) = Some err \<or>
           (\<exists>ld kc. fileLoader cc = Some ld \<and> Load ld = Inr kc \<and> V kc = Some err)"
  shows "\<exists>e. Bootstrap V now cc = (Inl e, cc)"
  using assms by (auto simp add: Bootstrap_def loadLocalConfig_def split: option.splits sum.splits)

theorem Bootstrap_invalid_local_witness:
  "\<exists>e. Bootstrap exampleValidator oneHour (exampleController\<lparr>defaultConfig := invalidConfig\<rparr>) =
         (Inl e, exampleController\<lparr>defaultConfig := invalidConfig\<rparr>)"
proof -
  have h: "exampleValidator (defaultConfig (exampleController\<lparr>defaultConfig := invalidConfig\<rparr>)) =
             Some (Error ''ConfigTrialDuration must not be negative'') \<or>
           (\<exists>ld kc. fileLoader (exampleController\<lparr>defaultConfig := invalidConfig\<rparr>) = Some ld \<and>
              Load ld = Inr kc \<and>
              exampleValidator kc = Some (Error ''ConfigTrialDuration must not be negative''))"
    by (simp add: exampleValidator_def invalidConfig_def)
  show ?thesis by (rule Bootstrap_invalid_local [OF h])
qed

text \<open>
  Claim C8. With a valid local configuration and dynamic configuration disabled,
  \<open>Bootstrap\<close> returns the local configuration and no error, sets the condition to true with
  the message and reason of a local configuration under disabled dynamic configuration, and
  changes nothing else: the store has been neither initialized nor read.
\<close>

theorem Bootstrap_dynamic_disabled:
  assumes "loadLocalConfig V cc = Inr local" and "\<not> dynamicConfig cc"
  shows "Bootstrap V now cc =
           (Inr local,
            cc\<lparr>configOK := \<lparr>message = NotDynamicLocalMessage, reason = NotDynamicLocalReason,
                              status = ConditionTrue\<rparr>\<rparr>)"
  using assms by (simp add: Bootstrap_def ConfigOK_Set_def)

theorem Bootstrap_dynamic_disabled_witness:
  "Bootstrap exampleValidator oneHour (exampleController\<lparr>dynamicConfig := False\<rparr>) =
     (Inr localConfig,
      exampleController\<lparr>dynamicConfig := False,
        configOK := \<lparr>message = NotDynamicLocalMessage, reason = NotDynamicLocalReason,
                      status = ConditionTrue\<rparr>\<rparr>)"
proof -
  have h1: "loadLocalConfig exampleValidator (exampleController\<lparr>dynamicConfig := False\<rparr>) = Inr localConfig"
    by (simp add: loadLocalConfig_def example_defs)
  have h2: "\<not> dynamicConfig (exampleController\<lparr>dynamicConfig := False\<rparr>)"
    by simp
  show ?thesis using Bootstrap_dynamic_disabled [OF h1 h2, of oneHour] by simp
qed

section \<open>The assigned configuration\<close>

text \<open>
  Claim C6. With a valid local configuration and the current pointer absent, the resolver of
  the assigned configuration returns the local configuration, no source, the reason
  \<open>local-ok\<close> and no error; and \<open>Bootstrap\<close>, with dynamic configuration enabled and the
  store initializing, returns the local configuration with a true condition that carries
  that reason.
\<close>

theorem assigned_absent_is_local:
  assumes "loadLocalConfig V cc = Inr local"
    and "currentErr (checkpointStore cc) = None"
    and "current (checkpointStore cc) = None"
  shows "fst (loadAssignedConfig V local cc) = (Inr local, None, CurLocalOkayReason) \<and>
         CurLocalOkayReason = ''local-ok'' \<and>
         (dynamicConfig cc \<and> initializeErr (checkpointStore cc) = None \<longrightarrow>
            fst (Bootstrap V now cc) = Inr local \<and>
            status (configOK (snd (Bootstrap V now cc))) = ConditionTrue \<and>
            reason (configOK (snd (Bootstrap V now cc))) = CurLocalOkayReason \<and>
            message (configOK (snd (Bootstrap V now cc))) = CurLocalMessage)"
  using assms by (simp add: bootstrap_simps CurLocalOkayReason_def split: option.splits sum.splits)

theorem assigned_absent_is_local_witness:
  "fst (loadAssignedConfig exampleValidator localConfig (withStore (exampleStore\<lparr>current := None\<rparr>))) =
     (Inr localConfig, None, ''local-ok'') \<and>
   fst (Bootstrap exampleValidator oneHour (withStore (exampleStore\<lparr>current := None\<rparr>))) = Inr localConfig \<and>
   status (configOK (snd (Bootstrap exampleValidator oneHour (withStore (exampleStore\<lparr>current := None\<rparr>))))) =
     ConditionTrue \<and>
   reason (configOK (snd (Bootstrap exampleValidator oneHour (withStore (exampleStore\<lparr>current := None\<rparr>))))) =
     ''local-ok''"
proof -
  have h1: "loadLocalConfig exampleValidator (withStore (exampleStore\<lparr>current := None\<rparr>)) = Inr localConfig"
    by simp
  have h2: "currentErr (checkpointStore (withStore (exampleStore\<lparr>current := None\<rparr>))) = None"
    by (simp add: exampleStore_def)
  have h3: "current (checkpointStore (withStore (exampleStore\<lparr>current := None\<rparr>))) = None"
    by simp
  have h4: "dynamicConfig (withStore (exampleStore\<lparr>current := None\<rparr>)) \<and>
            initializeErr (checkpointStore (withStore (exampleStore\<lparr>current := None\<rparr>))) = None"
    by (simp add: exampleStore_def)
  show ?thesis
    using assigned_absent_is_local [OF h1 h2 h3, of oneHour] h4 by (simp add: CurLocalOkayReason_def)
qed

text \<open>
  Claim C7, as amended. When the resolver of the assigned configuration fails, either the
  current pointer could not be read, and then it returns no source and the load-failure
  reason tagged \<open>unknown\<close>; or the pointer was read, and then it returns that source and
  the reason of the stage that failed (load, parse or validate) tagged with the UID of
  that source. A reason of the second kind determines both the stage and the UID.
\<close>

theorem assigned_failure_reason:
  assumes "fst (loadAssignedConfig V local cc) = (Inl err, source, rsn)"
  shows "((currentErr (checkpointStore cc) = Some err \<and> source = None \<and>
            rsn = Sprintf CurFailLoadReasonFmt [''unknown'']) \<or>
          (\<exists>src stage. currentErr (checkpointStore cc) = None \<and> current (checkpointStore cc) = Some src \<and>
             checkpointOutcome V (checkpointStore cc) (UID src) = Inl (stage, err) \<and>
             source = Some src \<and> rsn = curFailReason stage (UID src))) \<and>
         curFailReason LoadStage uid = Sprintf CurFailLoadReasonFmt [uid] \<and>
         curFailReason ParseStage uid = Sprintf CurFailParseReasonFmt [uid] \<and>
         curFailReason ValidateStage uid = Sprintf CurFailValidateReasonFmt [uid] \<and>
         (curFailReason stage1 uid1 = curFailReason stage2 uid2 \<longrightarrow> stage1 = stage2 \<and> uid1 = uid2)"
  using assms
  by (auto simp add: loadAssignedConfig_fst Sprintf_cur_reasons curFailReason_inj
      split: option.splits sum.splits)

theorem assigned_failure_reason_witness:
  "fst (loadAssignedConfig exampleValidator localConfig
          (withStore (exampleStore\<lparr>current := Some (RemoteConfigSource ''garbled'')\<rparr>))) =
     (Inl (Error ''unexpected end of input''), Some (RemoteConfigSource ''garbled''), ''parse-failed:garbled'') \<and>
   checkpointOutcome exampleValidator exampleStore ''garbled'' =
     Inl (ParseStage, Error ''unexpected end of input'')"
proof -
  have h: "fst (loadAssignedConfig exampleValidator localConfig
                  (withStore (exampleStore\<lparr>current := Some (RemoteConfigSource ''garbled'')\<rparr>))) =
             (Inl (Error ''unexpected end of input''), Some (RemoteConfigSource ''garbled''),
              ''parse-failed:garbled'')"
    by (simp add: loadAssignedConfig_fst exampleStore_def)
  show ?thesis
    using assigned_failure_reason [OF h] h by (auto simp add: exampleStore_def)
qed

theorem assigned_failure_reason_counterexample:
  "current (checkpointStore (withStore (exampleStore\<lparr>currentErr := Some (Error ''input/output error'')\<rparr>))) =
     Some (RemoteConfigSource ''v2'') \<and>
   loadAssignedConfig exampleValidator localConfig
     (withStore (exampleStore\<lparr>currentErr := Some (Error ''input/output error'')\<rparr>)) =
     ((Inl (Error ''input/output error''), None, ''load-failed:unknown''),
      withStore (exampleStore\<lparr>currentErr := Some (Error ''input/output error''), calls := [CallCurrent]\<rparr>))"
  by (simp add: loadAssignedConfig_def Current_def logCall_def CurFailLoadReasonFmt_def example_defs)

text \<open>
  Claim C9. The resolver of the assigned configuration, called again on the controller its
  first call has left, returns once more what the first call returned: the same
  configuration or error, source and reason. Apart from the record of the calls made, a
  call leaves the controller, and with it the store, as it found them.
\<close>

theorem loadAssignedConfig_idempotent:
  "fst (loadAssignedConfig V local (snd (loadAssignedConfig V local cc))) = fst (loadAssignedConfig V local cc) \<and>
   (snd (loadAssignedConfig V local cc))\<lparr>checkpointStore :=
      (checkpointStore (snd (loadAssignedConfig V local cc)))\<lparr>calls := calls (checkpointStore cc)\<rparr>\<rparr> = cc"
  by (simp add: loadAssignedConfig_fst loadAssignedConfig_snd addCalls_restore cong: option.case_cong)

text \<open>
  Claim C4, as amended. Let \<open>Bootstrap\<close> reach the store, the current pointer be \<open>X\<close> and
  the checkpoint of \<open>X\<close> resolve to a valid configuration with trial duration \<open>D\<close>; let
  \<open>T\<close> be the modification time of the current pointer, and let the time elapsed be the
  Duration \<^verbatim>\<open>now.Sub(T)\<close>. \<open>Bootstrap\<close> returns the assigned configuration in every case.
  If the elapsed time is at most \<open>D\<close>, the last-known-good pointer is left as it was. If
  the elapsed time exceeds \<open>D\<close>, the modification time can be read and the write of the
  last-known-good pointer succeeds, the last-known-good pointer is \<open>X\<close> afterwards. If the
  modification time cannot be read, or the write fails, the pointer is left as it was.
\<close>

theorem trial_promotion:
  assumes "loadLocalConfig V cc = Inr local"
    and "dynamicConfig cc"
    and "initializeErr (checkpointStore cc) = None"
    and "currentErr (checkpointStore cc) = None"
    and "current (checkpointStore cc) = Some X"
    and "checkpointOutcome V (checkpointStore cc) (UID X) = Inr assigned"
  shows "fst (Bootstrap V now cc) = Inr assigned \<and>
         lastKnownGood (checkpointStore (snd (Bootstrap V now cc))) =
           (if currentModifiedErr (checkpointStore cc) = None \<and>
               ConfigTrialDuration assigned < time_Sub now (currentModified (checkpointStore cc)) \<and>
               setLastKnownGoodErr (checkpointStore cc) = None
            then Some X
            else lastKnownGood (checkpointStore cc))"
  using assms by (simp add: bootstrap_simps split: option.splits sum.splits)

theorem trial_promotion_witness:
  "fst (Bootstrap exampleValidator oneHour (withStore exampleStore)) = Inr configV2 \<and>
   lastKnownGood (checkpointStore (snd (Bootstrap exampleValidator oneHour (withStore exampleStore)))) =
     Some (RemoteConfigSource ''v2'') \<and>
   lastKnownGood (checkpointStore (snd (Bootstrap exampleValidator tenMinutes (withStore exampleStore)))) =
     Some (RemoteConfigSource ''v1'')"
proof -
  have h1: "loadLocalConfig exampleValidator (withStore exampleStore) = Inr localConfig"
    by simp
  have h2: "dynamicConfig (withStore exampleStore)"
    by simp
  have h3: "initializeErr (checkpointStore (withStore exampleStore)) = None"
    by (simp add: exampleStore_def)
  have h4: "currentErr (checkpointStore (withStore exampleStore)) = None"
    by (simp add: exampleStore_def)
  have h5: "current (checkpointStore (withStore exampleStore)) = Some (RemoteConfigSource ''v2'')"
    by (simp add: exampleStore_def)
  have h6: "checkpointOutcome exampleValidator (checkpointStore (withStore exampleStore))
              (UID (RemoteConfigSource ''v2'')) = Inr configV2"
    by (simp add: exampleStore_def)
  show ?thesis
    using trial_promotion [OF h1 h2 h3 h4 h5 h6, of oneHour] trial_promotion [OF h1 h2 h3 h4 h5 h6, of tenMinutes]
    by (simp add: exampleStore_def configV2_def time_Sub_def maxDuration_def minDuration_def
        oneHour_def tenMinutes_def)
qed

theorem trial_promotion_counterexample:
  "current (exampleStore\<lparr>setLastKnownGoodErr := Some (Error ''read-only file system'')\<rparr>) =
     Some (RemoteConfigSource ''v2'') \<and>
   ConfigTrialDuration configV2 <
     oneHour - currentModified (exampleStore\<lparr>setLastKnownGoodErr := Some (Error ''read-only file system'')\<rparr>) \<and>
   fst (Bootstrap exampleValidator oneHour
          (withStore (exampleStore\<lparr>setLastKnownGoodErr := Some (Error ''read-only file system'')\<rparr>))) =
     Inr configV2 \<and>
   lastKnownGood (checkpointStore (snd (Bootstrap exampleValidator oneHour
          (withStore (exampleStore\<lparr>setLastKnownGoodErr := Some (Error ''read-only file system'')\<rparr>))))) =
     Some (RemoteConfigSource ''v1'')"
  by (simp add: bootstrap_simps exampleStore_def configV2_def time_Sub_def maxDuration_def minDuration_def
      oneHour_def tenMinutes_def)

text \<open>
  Claim C10, as amended. Let \<open>Bootstrap\<close> reach the store with the current pointer absent,
  so that the local configuration is the assigned one, and let the time elapsed since the
  modification of the current pointer, \<^verbatim>\<open>now.Sub(T)\<close>, exceed the trial duration of the
  local configuration. Then \<open>Bootstrap\<close> runs the graduation: it reads the current pointer
  again and calls \<^verbatim>\<open>SetLastKnownGood\<close> with the absent value. When that write succeeds, the
  last-known-good pointer is absent afterwards, whatever UID it held; when the write fails,
  the pointer keeps its value. The local configuration is returned in both cases.
\<close>

theorem graduation_of_absent_current:
  assumes "loadLocalConfig V cc = Inr local"
    and "dynamicConfig cc"
    and "initializeErr (checkpointStore cc) = None"
    and "currentErr (checkpointStore cc) = None"
    and "current (checkpointStore cc) = None"
    and "currentModifiedErr (checkpointStore cc) = None"
    and "ConfigTrialDuration local < time_Sub now (currentModified (checkpointStore cc))"
  shows "fst (Bootstrap V now cc) = Inr local \<and>
         calls (checkpointStore (snd (Bootstrap V now cc))) =
           calls (checkpointStore cc) @
             [CallInitialize, CallCurrent, CallCurrentModified, CallCurrent, CallSetLastKnownGood None] \<and>
         lastKnownGood (checkpointStore (snd (Bootstrap V now cc))) =
           (if setLastKnownGoodErr (checkpointStore cc) = None then None
            else lastKnownGood (checkpointStore cc))"
  using assms by (simp add: bootstrap_simps split: option.splits sum.splits)

theorem graduation_of_absent_current_witness:
  "lastKnownGood (exampleStore\<lparr>current := None\<rparr>) = Some (RemoteConfigSource ''v1'') \<and>
   fst (Bootstrap exampleValidator oneHour (withStore (exampleStore\<lparr>current := None\<rparr>))) = Inr localConfig \<and>
   lastKnownGood (checkpointStore (snd (Bootstrap exampleValidator oneHour
      (withStore (exampleStore\<lparr>current := None\<rparr>))))) = None"
proof -
  have h1: "loadLocalConfig exampleValidator (withStore (exampleStore\<lparr>current := None\<rparr>)) = Inr localConfig"
    by simp
  have h2: "dynamicConfig (withStore (exampleStore\<lparr>current := None\<rparr>))"
    by simp
  have h3: "initializeErr (checkpointStore (withStore (exampleStore\<lparr>current := None\<rparr>))) = None"
    by (simp add: exampleStore_def)
  have h4: "currentErr (checkpointStore (withStore (exampleStore\<lparr>current := None\<rparr>))) = None"
    by (simp add: exampleStore_def)
  have h5: "current (checkpointStore (withStore (exampleStore\<lparr>current := None\<rparr>))) = None"
    by simp
  have h6: "currentModifiedErr (checkpointStore (withStore (exampleStore\<lparr>current := None\<rparr>))) = None"
    by (simp add: exampleStore_def)
  have h7: "ConfigTrialDuration localConfig <
              time_Sub oneHour (currentModified (checkpointStore (withStore (exampleStore\<lparr>current := None\<rparr>))))"
    by (simp add: exampleStore_def localConfig_def time_Sub_def maxDuration_def minDuration_def
        oneHour_def tenMinutes_def)
  show ?thesis
    using graduation_of_absent_current [OF h1 h2 h3 h4 h5 h6 h7] by (simp add: exampleStore_def)
qed

theorem graduation_of_absent_current_counterexample:
  "current (exampleStore\<lparr>current := None, setLastKnownGoodErr := Some (Error ''read-only file system'')\<rparr>) =
     None \<and>
   ConfigTrialDuration localConfig <
     oneHour - currentModified
       (exampleStore\<lparr>current := None, setLastKnownGoodErr := Some (Error ''read-only file system'')\<rparr>) \<and>
   fst (Bootstrap exampleValidator oneHour
          (withStore (exampleStore\<lparr>current := None,
             setLastKnownGoodErr := Some (Error ''read-only file system'')\<rparr>))) = Inr localConfig \<and>
   lastKnownGood (checkpointStore (snd (Bootstrap exampleValidator oneHour
          (withStore (exampleStore\<lparr>current := None,
             setLastKnownGoodErr := Some (Error ''read-only file system'')\<rparr>))))) =
     Some (RemoteConfigSource ''v1'')"
  by (simp add: bootstrap_simps exampleStore_def localConfig_def time_Sub_def maxDuration_def
      minDuration_def oneHour_def tenMinutes_def)

section \<open>The last-known-good configuration\<close>

text \<open>
  Claim C1. Let \<open>Bootstrap\<close> reach the store (the local configuration is valid, dynamic
  configuration is enabled, the store initializes). If the current pointer refers to a
  checkpoint that fails to load, to parse or to validate, and the last-known-good pointer
  resolves (it is absent, which resolves to the local configuration, or it refers to a
  checkpoint holding a valid configuration), then \<open>Bootstrap\<close> returns the last-known-good
  configuration without an error, and the condition it has set is false and carries the
  reason the resolver of the assigned configuration returned: the reason of the stage that
  failed, tagged with the UID of the current pointer. The message names the
  last-known-good source.
\<close>

theorem rollback_to_last_known_good:
  assumes "loadLocalConfig V cc = Inr local"
    and "dynamicConfig cc"
    and "initializeErr (checkpointStore cc) = None"
    and "currentErr (checkpointStore cc) = None"
    and "current (checkpointStore cc) = Some src"
    and "checkpointOutcome V (checkpointStore cc) (UID src) = Inl (stage, err)"
    and "lastKnownGoodErr (checkpointStore cc) = None"
    and "case lastKnownGood (checkpointStore cc) of
           None \<Rightarrow> lkg = local
         | Some lkgSrc \<Rightarrow> checkpointOutcome V (checkpointStore cc) (UID lkgSrc) = Inr lkg"
  shows "fst (Bootstrap V now cc) = Inr lkg \<and>
         status (configOK (snd (Bootstrap V now cc))) = ConditionFalse \<and>
         reason (configOK (snd (Bootstrap V now cc))) = curFailReason stage (UID src) \<and>
         reason (configOK (snd (Bootstrap V now cc))) = snd (snd (fst (loadAssignedConfig V local cc))) \<and>
         message (configOK (snd (Bootstrap V now cc))) =
           (case lastKnownGood (checkpointStore cc) of
              None \<Rightarrow> LkgLocalMessage
            | Some lkgSrc \<Rightarrow> Sprintf LkgRemoteMessageFmt [UID lkgSrc])"
  using assms by (simp add: bootstrap_simps split: option.splits)

theorem rollback_to_last_known_good_witness:
  "fst (Bootstrap exampleValidator oneHour
          (withStore (exampleStore\<lparr>current := Some (RemoteConfigSource ''garbled'')\<rparr>))) = Inr configV1 \<and>
   status (configOK (snd (Bootstrap exampleValidator oneHour
          (withStore (exampleStore\<lparr>current := Some (RemoteConfigSource ''garbled'')\<rparr>))))) = ConditionFalse \<and>
   reason (configOK (snd (Bootstrap exampleValidator oneHour
          (withStore (exampleStore\<lparr>current := Some (RemoteConfigSource ''garbled'')\<rparr>))))) =
     ''parse-failed:garbled''"
proof -
  let ?cc = "withStore (exampleStore\<lparr>current := Some (RemoteConfigSource ''garbled'')\<rparr>)"
  have h1: "loadLocalConfig exampleValidator ?cc = Inr localConfig"
    by simp
  have h2: "dynamicConfig ?cc"
    by simp
  have h3: "initializeErr (checkpointStore ?cc) = None"
    by (simp add: exampleStore_def)
  have h4: "currentErr (checkpointStore ?cc) = None"
    by (simp add: exampleStore_def)
  have h5: "current (checkpointStore ?cc) = Some (RemoteConfigSource ''garbled'')"
    by simp
  have h6: "checkpointOutcome exampleValidator (checkpointStore ?cc) (UID (RemoteConfigSource ''garbled'')) =
              Inl (ParseStage, Error ''unexpected end of input'')"
    by (simp add: exampleStore_def)
  have h7: "lastKnownGoodErr (checkpointStore ?cc) = None"
    by (simp add: exampleStore_def)
  have h8: "case lastKnownGood (checkpointStore ?cc) of
              None \<Rightarrow> configV1 = localConfig
            | Some lkgSrc \<Rightarrow> checkpointOutcome exampleValidator (checkpointStore ?cc) (UID lkgSrc) = Inr configV1"
    by (simp add: exampleStore_def)
  show ?thesis
    using rollback_to_last_known_good [OF h1 h2 h3 h4 h5 h6 h7 h8, of oneHour] by simp
qed

text \<open>
  Claim C2. Let dynamic configuration be enabled. If the assigned configuration fails to
  resolve (the current pointer cannot be read, or its checkpoint fails to load, to parse or
  to validate) and the last-known-good configuration fails as well (its pointer cannot be
  read, or its checkpoint fails to load, to parse or to validate), then \<open>Bootstrap\<close>
  returns an error and no configuration; the local configuration is not returned in its
  place, and the condition is left as it was.
\<close>

theorem no_fallback_after_last_known_good:
  assumes "dynamicConfig cc"
    and "currentErr (checkpointStore cc) = Some err1 \<or>
         (\<exists>src stage. currentErr (checkpointStore cc) = None \<and> current (checkpointStore cc) = Some src \<and>
            checkpointOutcome V (checkpointStore cc) (UID src) = Inl (stage, err1))"
    and "lastKnownGoodErr (checkpointStore cc) = Some err2 \<or>
         (\<exists>src stage. lastKnownGoodErr (checkpointStore cc) = None \<and>
            lastKnownGood (checkpointStore cc) = Some src \<and>
            checkpointOutcome V (checkpointStore cc) (UID src) = Inl (stage, err2))"
  shows "(\<exists>err. fst (Bootstrap V now cc) = Inl err) \<and> configOK (snd (Bootstrap V now cc)) = configOK cc"
proof (cases "loadLocalConfig V cc")
  case (Inl e)
  then show ?thesis by (simp add: Bootstrap_def)
next
  case (Inr local)
  show ?thesis
  proof (cases "initializeErr (checkpointStore cc)")
    case (Some e)
    with Inr assms(1) show ?thesis
      by (simp add: Bootstrap_def initializeDynamicConfigDir_eq)
  next
    case None
    let ?cc1 = "addCalls [CallInitialize] cc"
    let ?cc2 = "snd (loadAssignedConfig V local ?cc1)"
    from assms(2) have "currentErr (checkpointStore ?cc1) = Some err1 \<or>
         (\<exists>src stage. currentErr (checkpointStore ?cc1) = None \<and> current (checkpointStore ?cc1) = Some src \<and>
            checkpointOutcome V (checkpointStore ?cc1) (UID src) = Inl (stage, err1))"
      by simp
    then obtain source rsn where a: "fst (loadAssignedConfig V local ?cc1) = (Inl err1, source, rsn)"
      using assigned_fails by blast
    from assms(3) have "lastKnownGoodErr (checkpointStore ?cc2) = Some err2 \<or>
         (\<exists>src stage. lastKnownGoodErr (checkpointStore ?cc2) = None \<and>
            lastKnownGood (checkpointStore ?cc2) = Some src \<and>
            checkpointOutcome V (checkpointStore ?cc2) (UID src) = Inl (stage, err2))"
      by (simp add: loadAssignedConfig_snd)
    then obtain err lkgSource where l: "fst (loadLastKnownGoodConfig V local ?cc2) = (Inl err, lkgSource)"
      using lastKnownGood_fails by blast
    from Bootstrap_both_fail [OF assms(1) a l Inr None] show ?thesis
      by blast
  qed
qed

theorem no_fallback_after_last_known_good_witness:
  "(\<exists>err. fst (Bootstrap exampleValidator oneHour
       (withStore (exampleStore\<lparr>current := Some (RemoteConfigSource ''bad''),
          lastKnownGood := Some (RemoteConfigSource ''gone'')\<rparr>))) = Inl err) \<and>
   configOK (snd (Bootstrap exampleValidator oneHour
       (withStore (exampleStore\<lparr>current := Some (RemoteConfigSource ''bad''),
          lastKnownGood := Some (RemoteConfigSource ''gone'')\<rparr>)))) = freshCondition"
proof -
  let ?cc = "withStore (exampleStore\<lparr>current := Some (RemoteConfigSource ''bad''),
               lastKnownGood := Some (RemoteConfigSource ''gone'')\<rparr>)"
  have h1: "dynamicConfig ?cc"
    by simp
  have h2: "currentErr (checkpointStore ?cc) = Some (Error ''ConfigTrialDuration must not be negative'') \<or>
            (\<exists>src stage. currentErr (checkpointStore ?cc) = None \<and> current (checkpointStore ?cc) = Some src \<and>
               checkpointOutcome exampleValidator (checkpointStore ?cc) (UID src) =
                 Inl (stage, Error ''ConfigTrialDuration must not be negative''))"
    by (simp add: exampleStore_def)
  have h3: "lastKnownGoodErr (checkpointStore ?cc) = Some (Error ''no such checkpoint'') \<or>
            (\<exists>src stage. lastKnownGoodErr (checkpointStore ?cc) = None \<and>
               lastKnownGood (checkpointStore ?cc) = Some src \<and>
               checkpointOutcome exampleValidator (checkpointStore ?cc) (UID src) =
                 Inl (stage, Error ''no such checkpoint''))"
    by (simp add: exampleStore_def)
  show ?thesis
    using no_fallback_after_last_known_good [OF h1 h2 h3, of oneHour] by simp
qed

section \<open>The pending-change signal\<close>

text \<open>
  Claim C5. On the channel a new controller is given (capacity one, nothing waiting), any
  number \<open>N \<ge> 1\<close> of raises with no consumption in between leaves exactly one value
  pending, the same channel a single raise leaves: a raise on the full slot changes nothing
  and returns. A consumption then takes that value and leaves the slot empty, and a
  consumption of the empty slot finds nothing pending.
\<close>

theorem signal_coalescing:
  assumes "1 \<le> N"
    and "NewController NewFsLoader NewFsStore c0 defaultCfg kubeletConfigFile dynamicConfigDir = Inr cc"
  shows "pending ((raiseSignal ^^ N) (pendingConfigSource cc)) = 1 \<and>
         (raiseSignal ^^ N) (pendingConfigSource cc) = raiseSignal (pendingConfigSource cc) \<and>
         raiseSignal ((raiseSignal ^^ N) (pendingConfigSource cc)) = (raiseSignal ^^ N) (pendingConfigSource cc) \<and>
         consumeSignal ((raiseSignal ^^ N) (pendingConfigSource cc)) = (Some True, pendingConfigSource cc) \<and>
         pending (pendingConfigSource cc) = 0 \<and>
         consumeSignal (pendingConfigSource cc) = (None, pendingConfigSource cc)"
proof -
  obtain n where N: "N = Suc n"
    using assms(1) by (cases N) auto
  have ch: "pendingConfigSource cc = make_chan 1"
    using assms(2) by (auto simp add: NewController_def split: if_splits sum.splits)
  show ?thesis
    unfolding N ch raiseSignal_pow
    by (simp add: pending_def consumeSignal_def make_chan_def raiseSignal_def)
qed

theorem signal_coalescing_witness:
  "pending ((raiseSignal ^^ 3) (pendingConfigSource exampleController)) = 1 \<and>
   consumeSignal ((raiseSignal ^^ 3) (pendingConfigSource exampleController)) =
     (Some True, pendingConfigSource exampleController) \<and>
   consumeSignal (pendingConfigSource exampleController) = (None, pendingConfigSource exampleController)"
proof -
  have h1: "(1::nat) \<le> 3"
    by simp
  have h2: "NewController (\<lambda>path. Inl (Error ''no such file'')) (\<lambda>dir sub. exampleStore) freshCondition
              localConfig [] ''/var/lib/kubelet/dynamic'' = Inr exampleController"
    by (simp add: NewController_def exampleController_def)
  show ?thesis
    using signal_coalescing [OF h1 h2] by blast
qed

end
